theory Spec2Isabelle
  imports Main "HOL-Library.Word" "HOL-Library.Sublist"
begin

section \<open>Data model\<close>

text \<open>
  The types of \<^verbatim>\<open>@/types\<close> as the sources use them. An \<^verbatim>\<open>EmotionAction\<close> is one of
  the two tags \<^verbatim>\<open>'expressed'\<close> and \<^verbatim>\<open>'suppressed'\<close>; the animation of a creature is one
  of four labels. The numeric fields of a \<^verbatim>\<open>CreatureState\<close> are JavaScript numbers that
  hold integers; they are modelled as unbounded integers, so a value outside
  \<open>[0, 100]\<close> is a legal input. The field \<^verbatim>\<open>size\<close> is written \<open>size_c\<close>, since
  \<open>size\<close> is a constant of HOL.
\<close>

datatype EmotionAction = Expressed | Suppressed

datatype Animation = Idle | Grow | Curl | Celebrate

record CreatureState =
  brightness :: int
  size_c :: int
  animation :: Animation

section \<open>The state transition function (utils/creatureState)\<close>

text \<open>
  \<^verbatim>\<open>calculateNewState(currentState, action)\<close>: the two changes are chosen by comparing
  the action with \<^verbatim>\<open>'expressed'\<close>, each sum is bounded by
  \<^verbatim>\<open>Math.max(0, Math.min(100, ...))\<close>, and the animation is chosen from the action and
  the new brightness. The function has no failing branch.
\<close>

definition calculateNewState :: "CreatureState \<Rightarrow> EmotionAction \<Rightarrow> CreatureState" where
  "calculateNewState currentState action =
     (let brightnessChange = (if action = Expressed then 5 else - 3);
          sizeChange = (if action = Expressed then 2 else - 1);
          newBrightness = max 0 (min 100 (brightness currentState + brightnessChange));
          newSize = max 0 (min 100 (size_c currentState + sizeChange));
          newAnimation =
            (if action = Expressed
             then (if newBrightness = 100 then Celebrate else Grow)
             else Curl)
      in \<lparr>brightness = newBrightness, size_c = newSize, animation = newAnimation\<rparr>)"

text \<open>\<^verbatim>\<open>getInitialState()\<close>: the default snapshot.\<close>

definition getInitialState :: CreatureState where
  "getInitialState = \<lparr>brightness = 50, size_c = 50, animation = Idle\<rparr>"

text \<open>
  The specification's own \<open>clamp(v, lo, hi) = max(lo, min(hi, v))\<close>, written from its
  words; the transition function is compared with it.
\<close>

definition clamp :: "int \<Rightarrow> int \<Rightarrow> int \<Rightarrow> int" where
  "clamp v lo hi = max lo (min hi v)"

text \<open>
  The loop of the property tests (\<^verbatim>\<open>for (const action of actions) state =
  calculateNewState(state, action)\<close>), returning the state observed after every step,
  in order.
\<close>

fun applyActions :: "CreatureState \<Rightarrow> EmotionAction list \<Rightarrow> CreatureState list" where
  "applyActions state [] = []"
| "applyActions state (action # actions) =
     (let state' = calculateNewState state action in state' # applyActions state' actions)"

section \<open>JavaScript strings\<close>

text \<open>
  A JavaScript string is a sequence of UTF-16 code units. \<open>js\<close> writes an ASCII literal
  as such a sequence. \<^verbatim>\<open>String.prototype.trim\<close> removes the code units of ECMAScript's
  WhiteSpace and LineTerminator productions from both ends.
\<close>

type_synonym jsstring = "16 word list"

definition js :: "string \<Rightarrow> jsstring" where
  "js s = map of_char s"

definition isWhiteSpace :: "16 word \<Rightarrow> bool" where
  "isWhiteSpace c \<longleftrightarrow>
     c \<in> {0x0009, 0x000A, 0x000B, 0x000C, 0x000D, 0x0020, 0x00A0, 0x1680,
          0x2028, 0x2029, 0x202F, 0x205F, 0x3000, 0xFEFF}
     \<or> (0x2000 \<le> c \<and> c \<le> 0x200A)"

definition trim :: "jsstring \<Rightarrow> jsstring" where
  "trim s = rev (dropWhile isWhiteSpace (rev (dropWhile isWhiteSpace s)))"

section \<open>The session coordinator (context/EmotionContext)\<close>

text \<open>
  An \<^verbatim>\<open>EmotionLog\<close> has the fields \<^verbatim>\<open>id\<close>, \<^verbatim>\<open>text\<close>, \<^verbatim>\<open>action\<close> and \<^verbatim>\<open>timestamp\<close>
  (prefixed here with \<open>log_\<close>).
\<close>

record EmotionLog =
  log_id :: jsstring
  log_text :: jsstring
  log_action :: EmotionAction
  log_timestamp :: int

text \<open>
  The provider keeps three pieces of React state and calls the storage service. The
  calls it issues are effects; the model records them, in order, in \<open>storageCalls\<close>,
  so that "no persistence call is made" is a statement about that list.
\<close>

datatype StorageCall =
  SaveLogs "EmotionLog list"
| SaveCreatureState CreatureState
| SaveSafetyScore int
| ClearAll

record Session =
  logs :: "EmotionLog list"
  creatureState :: CreatureState
  safetyScore :: int
  storageCalls :: "StorageCall list"

text \<open>The \<^verbatim>\<open>useState\<close> defaults of the provider.\<close>

definition initialSession :: Session where
  "initialSession =
     \<lparr>logs = [], creatureState = getInitialState, safetyScore = 0, storageCalls = []\<rparr>"

text \<open>
  \<^verbatim>\<open>safetyScore + 1\<close> is an addition of IEEE 754 doubles. On an integer-valued double
  \<open>n\<close> it is exact while the sum has magnitude at most \<open>2^53\<close>. From \<open>2^53\<close> on the
  doubles are the even integers: between \<open>2^53\<close> and \<open>2^54\<close> in magnitude the sum lies
  half-way between \<open>n\<close> and \<open>n + 2\<close> and is rounded to the one whose significand
  (\<open>n div 2\<close>, resp. \<open>n div 2 + 1\<close>) is even; beyond that it is rounded back to \<open>n\<close>.
  So the score stays at \<open>2^53\<close> once it is there.
\<close>

definition jsIncrement :: "int \<Rightarrow> int" where
  "jsIncrement n =
     (if - (2 ^ 53) \<le> n \<and> n < 2 ^ 53 then n + 1
      else if - (2 ^ 54) < n \<and> n < 2 ^ 54 \<and> odd (n div 2) then n + 2
      else n)"

text \<open>
  \<^verbatim>\<open>addLog(text, action)\<close>. The results of \<^verbatim>\<open>uuidv4()\<close> and \<^verbatim>\<open>Date.now()\<close> come from
  the environment and are parameters (\<open>uuid\<close>, \<open>now\<close>). The function builds the log,
  appends it, computes the next creature state, increments the score for an expressed
  action, and issues the three saves. It does not look at the text. The session it is
  applied to is the one of the last render: the callback is a closure over that
  render's \<^verbatim>\<open>logs\<close>, \<^verbatim>\<open>creatureState\<close> and \<^verbatim>\<open>safetyScore\<close>.
\<close>

definition addLog :: "jsstring \<Rightarrow> int \<Rightarrow> jsstring \<Rightarrow> EmotionAction \<Rightarrow> Session \<Rightarrow> Session" where
  "addLog uuid now txt action st =
     (let newLog = \<lparr>log_id = uuid, log_text = txt, log_action = action, log_timestamp = now\<rparr>;
          updatedLogs = logs st @ [newLog];
          newCreatureState = calculateNewState (creatureState st) action;
          newSafetyScore =
            (if action = Expressed then jsIncrement (safetyScore st) else safetyScore st)
      in \<lparr>logs = updatedLogs,
          creatureState = newCreatureState,
          safetyScore = newSafetyScore,
          storageCalls = storageCalls st @
            [SaveLogs updatedLogs, SaveCreatureState newCreatureState,
             SaveSafetyScore newSafetyScore]\<rparr>)"

text \<open>\<^verbatim>\<open>clearLogs()\<close>: back to the defaults, and one \<^verbatim>\<open>clearAll\<close> call.\<close>

definition clearLogs :: "Session \<Rightarrow> Session" where
  "clearLogs st =
     \<lparr>logs = [], creatureState = getInitialState, safetyScore = 0,
      storageCalls = storageCalls st @ [ClearAll]\<rparr>"

text \<open>
  A request is one \<^verbatim>\<open>addLog\<close> call: the environment's values for that call, the text
  and the action.
\<close>

record LogRequest =
  req_uuid :: jsstring
  req_now :: int
  req_text :: jsstring
  req_action :: EmotionAction

text \<open>
  One \<^verbatim>\<open>addLog\<close> call between two renders. The callback computes from the session of
  the last render (\<open>rendered\<close>), whatever was set since; its \<^verbatim>\<open>setLogs\<close>,
  \<^verbatim>\<open>setCreatureState\<close> and \<^verbatim>\<open>setSafetyScore\<close> replace the values React holds for the
  next render (\<open>pending\<close>), and its three saves follow the storage calls made so far.
  \<^verbatim>\<open>setSafetyScore\<close> is called for an expressed action only, so a suppressed action
  leaves the pending score as it is.
\<close>

definition addLogCall ::
  "Session \<Rightarrow> jsstring \<Rightarrow> int \<Rightarrow> jsstring \<Rightarrow> EmotionAction \<Rightarrow> Session \<Rightarrow> Session" where
  "addLogCall rendered uuid now txt action pending =
     (let result = addLog uuid now txt action (rendered\<lparr>storageCalls := storageCalls pending\<rparr>)
      in if action = Expressed then result
         else result\<lparr>safetyScore := safetyScore pending\<rparr>)"

text \<open>The \<^verbatim>\<open>addLog\<close> calls made between two renders, in order: all of them compute from
  the same rendered session.\<close>

fun addLogCalls :: "Session \<Rightarrow> Session \<Rightarrow> LogRequest list \<Rightarrow> Session" where
  "addLogCalls rendered pending [] = pending"
| "addLogCalls rendered pending (r # rs) =
     addLogCalls rendered
       (addLogCall rendered (req_uuid r) (req_now r) (req_text r) (req_action r) pending) rs"

text \<open>
  The life of the provider as a sequence of renders, each followed by the \<^verbatim>\<open>addLog\<close>
  calls made before the next one. A render makes the pending values the rendered ones
  (the callback is created again from them, by its dependency list).
\<close>

fun processRenders :: "Session \<Rightarrow> LogRequest list list \<Rightarrow> Session" where
  "processRenders st [] = st"
| "processRenders st (calls # renders) = processRenders (addLogCalls st st calls) renders"

section \<open>The main page (app/page.tsx)\<close>

text \<open>
  The page holds the input value and uses the session. \<^verbatim>\<open>handleAction(action)\<close> returns
  at once when the trimmed input has length 0; otherwise it calls \<^verbatim>\<open>addLog\<close> with the
  untrimmed input and clears the input.
\<close>

record Page =
  inputValue :: jsstring
  session :: Session

definition handleAction :: "jsstring \<Rightarrow> int \<Rightarrow> EmotionAction \<Rightarrow> Page \<Rightarrow> Page" where
  "handleAction uuid now action p =
     (if length (trim (inputValue p)) = 0 then p
      else \<lparr>inputValue = [],
            session = addLog uuid now (inputValue p) action (session p)\<rparr>)"

section \<open>The persistence gateway (services/storageService)\<close>

text \<open>
  The implementation of the storage service is not among the sources; only its tests and
  its callers are. Every definition of this section is therefore written from the
  specification's description of the gateway, and says so.
\<close>

text \<open>
  Modelled from the spec: the values the missing storage service serialises. A record is
  written as JSON; \<open>json\<close> is the value \<^verbatim>\<open>JSON.parse\<close> returns, with an object given
  by its properties (distinct names) and numbers restricted to integers.
\<close>

datatype json =
  JNull
| JBool bool
| JNum int
| JStr jsstring
| JArr "json list"
| JObj "(jsstring \<times> json) list"

text \<open>
  Modelled from the spec: what the missing storage service finds under a key. The text
  is described by what \<^verbatim>\<open>JSON.parse\<close> makes of it: \<open>Malformed t\<close> is a text it rejects
  ("unparseable"), \<open>Wellformed v\<close> a text it parses to \<open>v\<close>. \<^verbatim>\<open>JSON.stringify\<close> of a
  value writes a text that parses to that value.
\<close>

datatype StoredText = Malformed jsstring | Wellformed json

text \<open>
  Modelled from the spec: the exceptions the underlying store throws at the missing
  storage service, each with its message: the quota-exceeded condition, and every other
  failure (generic, storage unavailable).
\<close>

datatype StorageException = QuotaExceededError jsstring | OtherError jsstring

text \<open>
  Modelled from the spec: the key-value store under the missing storage service. Besides
  its items it says whether reading and writing throw.
\<close>

record LocalStorage =
  items :: "jsstring \<rightharpoonup> StoredText"
  getItemThrows :: "StorageException option"
  setItemThrows :: "StorageException option"

text \<open>Modelled from the spec: a read of the store, used by the missing storage service;
  it throws (\<open>Inl\<close>) or returns the item, absent when nothing is stored.\<close>

definition getItem :: "LocalStorage \<Rightarrow> jsstring \<Rightarrow> StorageException + StoredText option" where
  "getItem ls k = (case getItemThrows ls of Some e \<Rightarrow> Inl e | None \<Rightarrow> Inr (items ls k))"

text \<open>Modelled from the spec: a write of the store, used by the missing storage service;
  it throws (\<open>Inl\<close>) or stores the item.\<close>

definition setItem ::
  "LocalStorage \<Rightarrow> jsstring \<Rightarrow> StoredText \<Rightarrow> StorageException + LocalStorage" where
  "setItem ls k v =
     (case setItemThrows ls of
        Some e \<Rightarrow> Inl e
      | None \<Rightarrow> Inr (ls\<lparr>items := (items ls)(k \<mapsto> v)\<rparr>))"

text \<open>Modelled from the spec: the key of the log history in the missing storage service.\<close>

definition LOGS_KEY :: jsstring where
  "LOGS_KEY = js ''emotionagotchi_logs''"

text \<open>Modelled from the spec: the key of the creature snapshot in the missing storage
  service.\<close>

definition CREATURE_KEY :: jsstring where
  "CREATURE_KEY = js ''emotionagotchi_creature''"

text \<open>Modelled from the spec: the key of the safety score in the missing storage service.\<close>

definition SAFETY_KEY :: jsstring where
  "SAFETY_KEY = js ''emotionagotchi_safety''"

text \<open>Modelled from the spec: the serialised action tag of the missing storage service's
  log records.\<close>

definition encodeAction :: "EmotionAction \<Rightarrow> json" where
  "encodeAction a =
     (case a of Expressed \<Rightarrow> JStr (js ''expressed'') | Suppressed \<Rightarrow> JStr (js ''suppressed''))"

text \<open>Modelled from the spec: reading an action tag back in the missing storage service;
  any other value has the wrong shape.\<close>

definition decodeAction :: "json \<Rightarrow> EmotionAction option" where
  "decodeAction v =
     (case v of
        JStr s \<Rightarrow>
          (if s = js ''expressed'' then Some Expressed
           else if s = js ''suppressed'' then Some Suppressed
           else None)
      | _ \<Rightarrow> None)"

text \<open>Modelled from the spec: the serialised animation label of the missing storage
  service's creature record.\<close>

definition encodeAnimation :: "Animation \<Rightarrow> json" where
  "encodeAnimation a =
     (case a of
        Idle \<Rightarrow> JStr (js ''idle'')
      | Grow \<Rightarrow> JStr (js ''grow'')
      | Curl \<Rightarrow> JStr (js ''curl'')
      | Celebrate \<Rightarrow> JStr (js ''celebrate''))"

text \<open>Modelled from the spec: reading an animation label back in the missing storage
  service; any other value has the wrong shape.\<close>

definition decodeAnimation :: "json \<Rightarrow> Animation option" where
  "decodeAnimation v =
     (case v of
        JStr s \<Rightarrow>
          (if s = js ''idle'' then Some Idle
           else if s = js ''grow'' then Some Grow
           else if s = js ''curl'' then Some Curl
           else if s = js ''celebrate'' then Some Celebrate
           else None)
      | _ \<Rightarrow> None)"

text \<open>Modelled from the spec: the serialised \<^verbatim>\<open>{id, text, action, timestamp}\<close> of the
  missing storage service.\<close>

definition encodeLog :: "EmotionLog \<Rightarrow> json" where
  "encodeLog l =
     JObj [(js ''id'', JStr (log_id l)),
           (js ''text'', JStr (log_text l)),
           (js ''action'', encodeAction (log_action l)),
           (js ''timestamp'', JNum (log_timestamp l))]"

text \<open>Modelled from the spec: reading one log back in the missing storage service; a
  value that is not an object with the four fields has the wrong shape.\<close>

definition decodeLog :: "json \<Rightarrow> EmotionLog option" where
  "decodeLog v =
     (case v of
        JObj props \<Rightarrow>
          (case (map_of props (js ''id''), map_of props (js ''text''),
                 map_of props (js ''action''), map_of props (js ''timestamp'')) of
             (Some (JStr i), Some (JStr t), Some a, Some (JNum ts)) \<Rightarrow>
               (case decodeAction a of
                  Some act \<Rightarrow>
                    Some \<lparr>log_id = i, log_text = t, log_action = act, log_timestamp = ts\<rparr>
                | None \<Rightarrow> None)
           | _ \<Rightarrow> None)
      | _ \<Rightarrow> None)"

text \<open>Modelled from the spec: reading a sequence of logs back in the missing storage
  service, in the stored order; one element of the wrong shape spoils the sequence.\<close>

fun decodeAll :: "json list \<Rightarrow> EmotionLog list option" where
  "decodeAll [] = Some []"
| "decodeAll (v # vs) =
     (case decodeLog v of
        None \<Rightarrow> None
      | Some l \<Rightarrow> (case decodeAll vs of None \<Rightarrow> None | Some ls \<Rightarrow> Some (l # ls)))"

text \<open>Modelled from the spec: the serialised \<^verbatim>\<open>{brightness, size, animation}\<close> of the
  missing storage service.\<close>

definition encodeCreatureState :: "CreatureState \<Rightarrow> json" where
  "encodeCreatureState s =
     JObj [(js ''brightness'', JNum (brightness s)),
           (js ''size'', JNum (size_c s)),
           (js ''animation'', encodeAnimation (animation s))]"

text \<open>Modelled from the spec: reading a creature snapshot back in the missing storage
  service; a value that is not an object, or misses a required field, has the wrong
  shape.\<close>

definition decodeCreatureState :: "json \<Rightarrow> CreatureState option" where
  "decodeCreatureState v =
     (case v of
        JObj props \<Rightarrow>
          (case (map_of props (js ''brightness''), map_of props (js ''size''),
                 map_of props (js ''animation'')) of
             (Some (JNum b), Some (JNum s), Some a) \<Rightarrow>
               (case decodeAnimation a of
                  Some an \<Rightarrow> Some \<lparr>brightness = b, size_c = s, animation = an\<rparr>
                | None \<Rightarrow> None)
           | _ \<Rightarrow> None)
      | _ \<Rightarrow> None)"

text \<open>Modelled from the spec: the \<^verbatim>\<open>Result = {success, error}\<close> every save of the missing
  storage service returns.\<close>

record SaveResult =
  success :: bool
  error :: "jsstring option"

text \<open>Modelled from the spec: the state of the missing storage service: the store it
  writes to and the single slot of its most recent error message.\<close>

record StorageService =
  localStorage :: LocalStorage
  lastError :: "jsstring option"

text \<open>Modelled from the spec: the missing storage service before its first call, on an
  empty working store.\<close>

definition newStorageService :: StorageService where
  "newStorageService =
     \<lparr>localStorage = \<lparr>items = Map.empty, getItemThrows = None, setItemThrows = None\<rparr>,
      lastError = None\<rparr>"

text \<open>Modelled from the spec: the message the missing storage service reports for a
  caught exception. The specification fixes only that the message of a quota-exceeded
  condition contains "Storage full"; the model takes that text, and the exception's own
  message otherwise.\<close>

definition errorMessage :: "StorageException \<Rightarrow> jsstring" where
  "errorMessage e =
     (case e of QuotaExceededError m \<Rightarrow> js ''Storage full'' | OtherError m \<Rightarrow> m)"

text \<open>Modelled from the spec: the common body of the three saves of the missing storage
  service: write the serialised value; a thrown exception is caught, reported in the
  result and kept as the last error.\<close>

definition saveItem ::
  "jsstring \<Rightarrow> json \<Rightarrow> StorageService \<Rightarrow> SaveResult \<times> StorageService" where
  "saveItem k v svc =
     (case setItem (localStorage svc) k (Wellformed v) of
        Inl e \<Rightarrow>
          (\<lparr>success = False, error = Some (errorMessage e)\<rparr>,
           svc\<lparr>lastError := Some (errorMessage e)\<rparr>)
      | Inr ls \<Rightarrow> (\<lparr>success = True, error = None\<rparr>, svc\<lparr>localStorage := ls\<rparr>))"

text \<open>Modelled from the spec: \<^verbatim>\<open>saveLogs(logs) -> Result\<close> of the missing storage
  service.\<close>

definition saveLogs :: "EmotionLog list \<Rightarrow> StorageService \<Rightarrow> SaveResult \<times> StorageService" where
  "saveLogs ls = saveItem LOGS_KEY (JArr (map encodeLog ls))"

text \<open>Modelled from the spec: \<^verbatim>\<open>saveCreatureState(state) -> Result\<close> of the missing
  storage service.\<close>

definition saveCreatureState ::
  "CreatureState \<Rightarrow> StorageService \<Rightarrow> SaveResult \<times> StorageService" where
  "saveCreatureState s = saveItem CREATURE_KEY (encodeCreatureState s)"

text \<open>Modelled from the spec: \<^verbatim>\<open>saveSafetyScore(score) -> Result\<close> of the missing
  storage service.\<close>

definition saveSafetyScore :: "int \<Rightarrow> StorageService \<Rightarrow> SaveResult \<times> StorageService" where
  "saveSafetyScore n = saveItem SAFETY_KEY (JNum n)"

text \<open>Modelled from the spec: the defensive read of the missing storage service: a store
  that throws, an absent item and an unparseable text all give nothing.\<close>

definition readItem :: "jsstring \<Rightarrow> StorageService \<Rightarrow> json option" where
  "readItem k svc =
     (case getItem (localStorage svc) k of
        Inl e \<Rightarrow> None
      | Inr None \<Rightarrow> None
      | Inr (Some (Malformed t)) \<Rightarrow> None
      | Inr (Some (Wellformed v)) \<Rightarrow> Some v)"

text \<open>Modelled from the spec: \<^verbatim>\<open>loadLogs()\<close> of the missing storage service; the safe
  default is the empty sequence.\<close>

definition loadLogs :: "StorageService \<Rightarrow> EmotionLog list" where
  "loadLogs svc =
     (case readItem LOGS_KEY svc of
        Some (JArr vs) \<Rightarrow> (case decodeAll vs of Some ls \<Rightarrow> ls | None \<Rightarrow> [])
      | _ \<Rightarrow> [])"

text \<open>Modelled from the spec: \<^verbatim>\<open>loadCreatureState()\<close> of the missing storage service;
  the safe default is "absent".\<close>

definition loadCreatureState :: "StorageService \<Rightarrow> CreatureState option" where
  "loadCreatureState svc =
     (case readItem CREATURE_KEY svc of Some v \<Rightarrow> decodeCreatureState v | None \<Rightarrow> None)"

text \<open>Modelled from the spec: \<^verbatim>\<open>loadSafetyScore()\<close> of the missing storage service; the
  safe default is 0.\<close>

definition loadSafetyScore :: "StorageService \<Rightarrow> int" where
  "loadSafetyScore svc = (case readItem SAFETY_KEY svc of Some (JNum n) \<Rightarrow> n | _ \<Rightarrow> 0)"

text \<open>Modelled from the spec: \<^verbatim>\<open>getLastError()\<close> of the missing storage service.\<close>

definition getLastError :: "StorageService \<Rightarrow> jsstring option" where
  "getLastError svc = lastError svc"

text \<open>Modelled from the spec: content written under a key behind the back of the missing
  storage service, as the corruption tests do with \<^verbatim>\<open>localStorage.setItem(key, raw)\<close>.\<close>

definition putRaw :: "jsstring \<Rightarrow> StoredText \<Rightarrow> StorageService \<Rightarrow> StorageService" where
  "putRaw k c svc =
     svc\<lparr>localStorage := (localStorage svc)\<lparr>items := (items (localStorage svc))(k \<mapsto> c)\<rparr>\<rparr>"

section \<open>Properties of the transition function\<close>

lemma calculateNewState_brightness:
  "brightness (calculateNewState s a) =
     max 0 (min 100 (brightness s + (if a = Expressed then 5 else - 3)))"
  by (simp add: calculateNewState_def Let_def)

lemma calculateNewState_size:
  "size_c (calculateNewState s a) =
     max 0 (min 100 (size_c s + (if a = Expressed then 2 else - 1)))"
  by (simp add: calculateNewState_def Let_def)

lemma calculateNewState_animation:
  "animation (calculateNewState s a) =
     (if a = Expressed
      then (if brightness (calculateNewState s a) = 100 then Celebrate else Grow)
      else Curl)"
  by (simp add: calculateNewState_def Let_def)

lemma calculateNewState_bounds:
  "0 \<le> brightness (calculateNewState s a) \<and> brightness (calculateNewState s a) \<le> 100 \<and>
   0 \<le> size_c (calculateNewState s a) \<and> size_c (calculateNewState s a) \<le> 100"
  by (simp add: calculateNewState_brightness calculateNewState_size)

text \<open>
  C1. For every creature state, with any integer brightness and size, an expressed
  action gives brightness \<open>clamp (brightness + 5) 0 100\<close> and size
  \<open>clamp (size + 2) 0 100\<close>, and a suppressed action gives brightness
  \<open>clamp (brightness - 3) 0 100\<close> and size \<open>clamp (size - 1) 0 100\<close>. The function is
  total: no input makes it fail.
\<close>

theorem calculateNewState_clamp:
  "brightness (calculateNewState s Expressed) = clamp (brightness s + 5) 0 100 \<and>
   size_c (calculateNewState s Expressed) = clamp (size_c s + 2) 0 100 \<and>
   brightness (calculateNewState s Suppressed) = clamp (brightness s - 3) 0 100 \<and>
   size_c (calculateNewState s Suppressed) = clamp (size_c s - 1) 0 100"
  by (simp add: calculateNewState_brightness calculateNewState_size clamp_def)

text \<open>
  C2. The animation of the result depends on the action and the resulting brightness
  only: celebrate for an expressed action whose resulting brightness is 100, grow for an
  expressed action whose resulting brightness is below 100, curl for a suppressed action
  whatever the resulting brightness.
\<close>

theorem calculateNewState_animation_rule:
  "(a = Expressed \<and> brightness (calculateNewState s a) = 100
      \<longrightarrow> animation (calculateNewState s a) = Celebrate) \<and>
   (a = Expressed \<and> brightness (calculateNewState s a) < 100
      \<longrightarrow> animation (calculateNewState s a) = Grow) \<and>
   (a = Suppressed \<longrightarrow> animation (calculateNewState s a) = Curl)"
  by (cases a) (simp_all add: calculateNewState_animation)

theorem calculateNewState_animation_rule_witness:
  "animation (calculateNewState \<lparr>brightness = 95, size_c = 98, animation = Grow\<rparr> Expressed)
     = Celebrate \<and>
   animation (calculateNewState getInitialState Expressed) = Grow \<and>
   animation (calculateNewState \<lparr>brightness = 103, size_c = 0, animation = Celebrate\<rparr> Suppressed)
     = Curl"
  using
    calculateNewState_animation_rule
      [of Expressed "\<lparr>brightness = 95, size_c = 98, animation = Grow\<rparr>"]
    calculateNewState_animation_rule [of Expressed getInitialState]
    calculateNewState_animation_rule
      [of Suppressed "\<lparr>brightness = 103, size_c = 0, animation = Celebrate\<rparr>"]
  by (simp add: calculateNewState_brightness getInitialState_def)

text \<open>
  C3. Starting from the default snapshot, after every step of every sequence of actions
  the brightness and the size are integers between 0 and 100.
\<close>

theorem applyActions_bounded:
  "\<forall>s \<in> set (applyActions getInitialState actions).
     0 \<le> brightness s \<and> brightness s \<le> 100 \<and> 0 \<le> size_c s \<and> size_c s \<le> 100"
proof -
  have "\<forall>s \<in> set (applyActions st actions).
     0 \<le> brightness s \<and> brightness s \<le> 100 \<and> 0 \<le> size_c s \<and> size_c s \<le> 100" for st
  proof (induction actions arbitrary: st)
    case Nil
    show ?case by simp
  next
    case (Cons a actions)
    from calculateNewState_bounds [of st a] Cons.IH [of "calculateNewState st a"]
    show ?case by (simp add: Let_def)
  qed
  then show ?thesis .
qed

theorem applyActions_bounded_witness:
  "applyActions getInitialState [Expressed, Suppressed] =
     [\<lparr>brightness = 55, size_c = 52, animation = Grow\<rparr>,
      \<lparr>brightness = 52, size_c = 51, animation = Curl\<rparr>] \<and>
   list_all (\<lambda>s. 0 \<le> brightness s \<and> brightness s \<le> 100 \<and> 0 \<le> size_c s \<and> size_c s \<le> 100)
     (applyActions getInitialState [Expressed, Suppressed])"
  using applyActions_bounded [of "[Expressed, Suppressed]"]
  by (simp add: calculateNewState_def getInitialState_def Let_def)

text \<open>
  C6 (as amended). The transition function is a function of its inputs, but it is a
  step, not a projection: applying it a second time with the same action leaves the
  state unchanged exactly when the first application already saturated both fields,
  that is for an expressed action when brightness is at least 95 and size at least 98,
  and for a suppressed action when brightness is at most 3 and size at most 1. In
  particular a creature at 100/100/celebrate is unchanged by a further expressed action.
\<close>

theorem calculateNewState_twice:
  "(calculateNewState (calculateNewState s a) a = calculateNewState s a \<longleftrightarrow>
      (case a of
         Expressed \<Rightarrow> 95 \<le> brightness s \<and> 98 \<le> size_c s
       | Suppressed \<Rightarrow> brightness s \<le> 3 \<and> size_c s \<le> 1)) \<and>
   calculateNewState \<lparr>brightness = 100, size_c = 100, animation = Celebrate\<rparr> Expressed =
     \<lparr>brightness = 100, size_c = 100, animation = Celebrate\<rparr>"
proof (cases a)
  case Expressed
  then show ?thesis
    by (auto simp add: calculateNewState_def Let_def max_def min_def)
next
  case Suppressed
  then show ?thesis
    by (auto simp add: calculateNewState_def Let_def max_def min_def)
qed

theorem calculateNewState_twice_witness:
  "calculateNewState
     (calculateNewState \<lparr>brightness = 95, size_c = 98, animation = Grow\<rparr> Expressed) Expressed =
   calculateNewState \<lparr>brightness = 95, size_c = 98, animation = Grow\<rparr> Expressed \<and>
   calculateNewState
     (calculateNewState \<lparr>brightness = 96, size_c = 97, animation = Grow\<rparr> Expressed) Expressed \<noteq>
   calculateNewState \<lparr>brightness = 96, size_c = 97, animation = Grow\<rparr> Expressed"
  using
    calculateNewState_twice [of "\<lparr>brightness = 95, size_c = 98, animation = Grow\<rparr>" Expressed]
    calculateNewState_twice [of "\<lparr>brightness = 96, size_c = 97, animation = Grow\<rparr>" Expressed]
  by simp

text \<open>
  The claim C6 as stated, idempotence for every state and action, fails at the default
  snapshot: one expressed action gives 55/52, a second one 60/54.
\<close>

theorem calculateNewState_not_idempotent:
  "calculateNewState getInitialState Expressed =
     \<lparr>brightness = 55, size_c = 52, animation = Grow\<rparr> \<and>
   calculateNewState (calculateNewState getInitialState Expressed) Expressed =
     \<lparr>brightness = 60, size_c = 54, animation = Grow\<rparr> \<and>
   calculateNewState (calculateNewState getInitialState Expressed) Expressed \<noteq>
     calculateNewState getInitialState Expressed"
  by (simp add: calculateNewState_def getInitialState_def Let_def)

text \<open>
  C10. Two creature states that agree on brightness and size give the same result for
  every action, whatever their animations: the result is a function of the input
  brightness, size and action. The resulting animation is never idle; idle is the
  animation of the initial state.
\<close>

theorem calculateNewState_ignores_animation:
  "(brightness s1 = brightness s2 \<and> size_c s1 = size_c s2 \<longrightarrow>
      calculateNewState s1 a = calculateNewState s2 a) \<and>
   animation (calculateNewState s a) \<noteq> Idle \<and>
   animation getInitialState = Idle"
  by (simp add: calculateNewState_def getInitialState_def Let_def)

theorem calculateNewState_ignores_animation_witness:
  "calculateNewState \<lparr>brightness = 50, size_c = 50, animation = Idle\<rparr> Suppressed =
   calculateNewState \<lparr>brightness = 50, size_c = 50, animation = Celebrate\<rparr> Suppressed \<and>
   animation (calculateNewState \<lparr>brightness = 50, size_c = 50, animation = Idle\<rparr> Suppressed)
     = Curl"
  using calculateNewState_ignores_animation
    [of "\<lparr>brightness = 50, size_c = 50, animation = Idle\<rparr>"
        "\<lparr>brightness = 50, size_c = 50, animation = Celebrate\<rparr>" Suppressed]
  by (simp add: calculateNewState_animation)

section \<open>Properties of the session coordinator and the page\<close>

lemma jsIncrement_exact: "- (2 ^ 53) \<le> n \<Longrightarrow> n < 2 ^ 53 \<Longrightarrow> jsIncrement n = n + 1"
  by (simp add: jsIncrement_def)

lemma addLog_safetyScore:
  "safetyScore (addLog uuid now txt a st) =
     (if a = Expressed then jsIncrement (safetyScore st) else safetyScore st)"
  by (simp add: addLog_def Let_def)

lemma addLogCall_fresh: "addLogCall st uuid now txt a st = addLog uuid now txt a st"
  by (simp add: addLogCall_def addLog_def Let_def)

lemma addLogCalls_fresh_safetyScore:
  assumes "length calls \<le> 1"
    and "0 \<le> safetyScore st"
    and "safetyScore st + int (length (filter (\<lambda>r. req_action r = Expressed) calls)) \<le> 2 ^ 53"
  shows "safetyScore (addLogCalls st st calls) =
           safetyScore st + int (length (filter (\<lambda>r. req_action r = Expressed) calls))"
proof (cases calls)
  case Nil
  then show ?thesis by simp
next
  case (Cons r more)
  with assms(1) have "calls = [r]" by simp
  with assms(2,3) show ?thesis
    by (auto simp add: addLogCall_fresh addLog_safetyScore jsIncrement_def)
qed

lemma processRenders_safetyScore:
  assumes "\<forall>calls \<in> set renders. length calls \<le> 1"
    and "0 \<le> safetyScore st"
    and "safetyScore st +
           int (length (filter (\<lambda>r. req_action r = Expressed) (concat renders))) \<le> 2 ^ 53"
  shows "safetyScore (processRenders st renders) =
           safetyScore st +
             int (length (filter (\<lambda>r. req_action r = Expressed) (concat renders)))"
  using assms
proof (induction renders arbitrary: st)
  case Nil
  show ?case by simp
next
  case (Cons calls renders)
  let ?here = "int (length (filter (\<lambda>r. req_action r = Expressed) calls))"
  let ?later = "int (length (filter (\<lambda>r. req_action r = Expressed) (concat renders)))"
  let ?st = "addLogCalls st st calls"
  from Cons.prems(1) have one: "length calls \<le> 1"
    and rest: "\<forall>calls \<in> set renders. length calls \<le> 1"
    by simp_all
  from Cons.prems(3) have bound: "safetyScore st + ?here + ?later \<le> 2 ^ 53"
    by simp
  then have "safetyScore st + ?here \<le> 2 ^ 53"
    by linarith
  with one Cons.prems(2) have here: "safetyScore ?st = safetyScore st + ?here"
    by (rule addLogCalls_fresh_safetyScore)
  with Cons.prems(2) bound have "0 \<le> safetyScore ?st" and "safetyScore ?st + ?later \<le> 2 ^ 53"
    by simp_all
  with rest have "safetyScore (processRenders ?st renders) = safetyScore ?st + ?later"
    by (rule Cons.IH)
  with here show ?case by simp
qed

text \<open>
  C4 (as amended). Starting from safety score 0, with every \<^verbatim>\<open>addLog\<close> call made on a
  freshly rendered provider (at most one call between two renders, as one click of the
  page makes) and at most \<open>2^53\<close> expressed actions, the score after the sequence is the
  number of expressed actions in it, so it is never negative. A call for an expressed
  action adds exactly 1 to a score between \<open>-2^53\<close> and \<open>2^53 - 1\<close>; a call for a
  suppressed action leaves the score unchanged.
\<close>

theorem processRenders_counts_expressed:
  "(- (2 ^ 53) \<le> safetyScore st \<and> safetyScore st < 2 ^ 53 \<longrightarrow>
      safetyScore (addLog uuid now txt Expressed st) = safetyScore st + 1) \<and>
   safetyScore (addLog uuid now txt Suppressed st) = safetyScore st \<and>
   ((\<forall>calls \<in> set renders. length calls \<le> 1) \<and> safetyScore st = 0 \<and>
    int (length (filter (\<lambda>r. req_action r = Expressed) (concat renders))) \<le> 2 ^ 53 \<longrightarrow>
      safetyScore (processRenders st renders) =
        int (length (filter (\<lambda>r. req_action r = Expressed) (concat renders))) \<and>
      0 \<le> safetyScore (processRenders st renders))"
proof -
  have step: "- (2 ^ 53) \<le> safetyScore st \<and> safetyScore st < 2 ^ 53 \<longrightarrow>
      safetyScore (addLog uuid now txt Expressed st) = safetyScore st + 1"
    by (simp add: addLog_safetyScore jsIncrement_exact)
  have keep: "safetyScore (addLog uuid now txt Suppressed st) = safetyScore st"
    by (simp add: addLog_safetyScore)
  have total: "(\<forall>calls \<in> set renders. length calls \<le> 1) \<and> safetyScore st = 0 \<and>
    int (length (filter (\<lambda>r. req_action r = Expressed) (concat renders))) \<le> 2 ^ 53 \<longrightarrow>
      safetyScore (processRenders st renders) =
        int (length (filter (\<lambda>r. req_action r = Expressed) (concat renders))) \<and>
      0 \<le> safetyScore (processRenders st renders)"
    using processRenders_safetyScore [of renders st] by simp
  from step keep total show ?thesis by blast
qed

theorem processRenders_counts_expressed_witness:
  "safetyScore initialSession = 0 \<and>
   safetyScore
     (processRenders initialSession
        [[\<lparr>req_uuid = js ''a'', req_now = 1, req_text = js ''happy'', req_action = Expressed\<rparr>],
         [\<lparr>req_uuid = js ''b'', req_now = 2, req_text = js ''sad'', req_action = Suppressed\<rparr>],
         [\<lparr>req_uuid = js ''c'', req_now = 3, req_text = js ''excited'',
           req_action = Expressed\<rparr>]])
     = 2 \<and>
   safetyScore (addLog (js ''a'') 1 (js ''happy'') Expressed initialSession) = 1"
  using processRenders_counts_expressed
    [of initialSession "js ''a''" 1 "js ''happy''"
        "[[\<lparr>req_uuid = js ''a'', req_now = 1, req_text = js ''happy'', req_action = Expressed\<rparr>],
          [\<lparr>req_uuid = js ''b'', req_now = 2, req_text = js ''sad'', req_action = Suppressed\<rparr>],
          [\<lparr>req_uuid = js ''c'', req_now = 3, req_text = js ''excited'',
            req_action = Expressed\<rparr>]]"]
  by (simp add: initialSession_def)

text \<open>
  The claim C4 as stated, the score is the number of expressed actions after any
  sequence of calls and every expressed action adds exactly 1, fails twice. Two
  expressed \<^verbatim>\<open>addLog\<close> calls made before the provider renders again both compute from
  the rendered score 0: the score ends at 1, with one log. And at score \<open>2^53\<close> an
  expressed action leaves the score where it is.
\<close>

theorem addLog_twice_in_one_render:
  "length (filter (\<lambda>r. req_action r = Expressed)
     [\<lparr>req_uuid = js ''a'', req_now = 1, req_text = js ''happy'', req_action = Expressed\<rparr>,
      \<lparr>req_uuid = js ''b'', req_now = 2, req_text = js ''glad'', req_action = Expressed\<rparr>]) = 2 \<and>
   safetyScore
     (processRenders initialSession
        [[\<lparr>req_uuid = js ''a'', req_now = 1, req_text = js ''happy'', req_action = Expressed\<rparr>,
          \<lparr>req_uuid = js ''b'', req_now = 2, req_text = js ''glad'', req_action = Expressed\<rparr>]])
     = 1 \<and>
   logs
     (processRenders initialSession
        [[\<lparr>req_uuid = js ''a'', req_now = 1, req_text = js ''happy'', req_action = Expressed\<rparr>,
          \<lparr>req_uuid = js ''b'', req_now = 2, req_text = js ''glad'', req_action = Expressed\<rparr>]])
     = [\<lparr>log_id = js ''b'', log_text = js ''glad'', log_action = Expressed, log_timestamp = 2\<rparr>] \<and>
   safetyScore
     (addLog (js ''a'') 1 (js ''happy'') Expressed (initialSession\<lparr>safetyScore := 2 ^ 53\<rparr>))
     = 2 ^ 53"
  by (simp add: addLogCall_def addLog_def initialSession_def jsIncrement_def Let_def)

text \<open>
  C5 (as amended). The validation gate is in the page, not in the session coordinator:
  for every input that is empty after trimming surrounding whitespace, and every action,
  the page's \<^verbatim>\<open>handleAction\<close> returns without calling \<^verbatim>\<open>addLog\<close>, so no log is
  created, the creature state and the safety score are unchanged and no persistence
  call is made.
\<close>

theorem handleAction_rejects_blank:
  assumes "trim (inputValue p) = []"
  shows "handleAction uuid now a p = p \<and>
         logs (session (handleAction uuid now a p)) = logs (session p) \<and>
         creatureState (session (handleAction uuid now a p)) = creatureState (session p) \<and>
         safetyScore (session (handleAction uuid now a p)) = safetyScore (session p) \<and>
         storageCalls (session (handleAction uuid now a p)) = storageCalls (session p)"
  using assms by (simp add: handleAction_def)

theorem handleAction_rejects_blank_witness:
  "trim (js ''   '') = [] \<and>
   handleAction (js ''id-1'') 1000 Expressed \<lparr>inputValue = js ''   '', session = initialSession\<rparr>
     = \<lparr>inputValue = js ''   '', session = initialSession\<rparr>"
proof -
  have blank: "trim (inputValue \<lparr>inputValue = js ''   '', session = initialSession\<rparr>) = []"
    by (simp add: trim_def js_def isWhiteSpace_def)
  from blank handleAction_rejects_blank [OF blank, of "js ''id-1''" 1000 Expressed]
  show ?thesis by simp
qed

text \<open>
  The claim C5 as stated, a no-op at the session coordinator, fails: \<^verbatim>\<open>addLog\<close> called
  with the text of three spaces appends a log, moves the creature, raises the score and
  issues the three saves.
\<close>

theorem addLog_accepts_blank:
  "trim (js ''   '') = [] \<and>
   addLog (js ''id-1'') 1000 (js ''   '') Expressed initialSession =
     \<lparr>logs = [\<lparr>log_id = js ''id-1'', log_text = js ''   '', log_action = Expressed,
               log_timestamp = 1000\<rparr>],
      creatureState = \<lparr>brightness = 55, size_c = 52, animation = Grow\<rparr>,
      safetyScore = 1,
      storageCalls =
        [SaveLogs [\<lparr>log_id = js ''id-1'', log_text = js ''   '', log_action = Expressed,
                    log_timestamp = 1000\<rparr>],
         SaveCreatureState \<lparr>brightness = 55, size_c = 52, animation = Grow\<rparr>,
         SaveSafetyScore 1]\<rparr> \<and>
   addLog (js ''id-1'') 1000 (js ''   '') Expressed initialSession \<noteq> initialSession"
  by (simp add: addLog_def initialSession_def calculateNewState_def getInitialState_def
      jsIncrement_def Let_def trim_def js_def isWhiteSpace_def)

section \<open>Properties of the persistence gateway\<close>

lemma storage_keys_distinct:
  "LOGS_KEY \<noteq> CREATURE_KEY" "LOGS_KEY \<noteq> SAFETY_KEY" "CREATURE_KEY \<noteq> SAFETY_KEY"
  by (simp_all add: LOGS_KEY_def CREATURE_KEY_def SAFETY_KEY_def js_def)

lemma decodeAction_encodeAction: "decodeAction (encodeAction a) = Some a"
  by (cases a) (simp_all add: decodeAction_def encodeAction_def js_def)

lemma decodeAnimation_encodeAnimation: "decodeAnimation (encodeAnimation a) = Some a"
  by (cases a) (simp_all add: decodeAnimation_def encodeAnimation_def js_def)

lemma decodeLog_encodeLog: "decodeLog (encodeLog l) = Some l"
  by (simp add: decodeLog_def encodeLog_def decodeAction_encodeAction js_def)

lemma decodeAll_encodeLog: "decodeAll (map encodeLog ls) = Some ls"
  by (induction ls) (simp_all add: decodeLog_encodeLog)

lemma decodeCreatureState_encodeCreatureState:
  "decodeCreatureState (encodeCreatureState s) = Some s"
  by (simp add: decodeCreatureState_def encodeCreatureState_def
      decodeAnimation_encodeAnimation js_def)

lemma readItem_saveItem:
  assumes "setItemThrows (localStorage svc) = None"
    and "getItemThrows (localStorage svc) = None"
  shows "readItem k (snd (saveItem k v svc)) = Some v"
  using assms by (simp add: readItem_def saveItem_def setItem_def getItem_def)

text \<open>
  C7. On a store that accepts the write and allows the read, saving a value of any of
  the three record kinds and then loading that kind returns the value saved; for logs
  that is the same sequence in the same order.
\<close>

theorem save_load_roundtrip:
  assumes "setItemThrows (localStorage svc) = None"
    and "getItemThrows (localStorage svc) = None"
  shows "loadLogs (snd (saveLogs ls svc)) = ls \<and>
         loadCreatureState (snd (saveCreatureState s svc)) = Some s \<and>
         loadSafetyScore (snd (saveSafetyScore n svc)) = n"
proof -
  have "loadLogs (snd (saveLogs ls svc)) = ls"
    using assms by (simp add: loadLogs_def saveLogs_def readItem_saveItem decodeAll_encodeLog)
  moreover have "loadCreatureState (snd (saveCreatureState s svc)) = Some s"
    using assms
    by (simp add: loadCreatureState_def saveCreatureState_def readItem_saveItem
        decodeCreatureState_encodeCreatureState)
  moreover have "loadSafetyScore (snd (saveSafetyScore n svc)) = n"
    using assms by (simp add: loadSafetyScore_def saveSafetyScore_def readItem_saveItem)
  ultimately show ?thesis by simp
qed

theorem save_load_roundtrip_witness:
  "loadLogs
     (snd (saveLogs
        [\<lparr>log_id = js ''123'', log_text = js ''Feeling happy'', log_action = Expressed,
          log_timestamp = 1700000000000\<rparr>,
         \<lparr>log_id = js ''124'', log_text = js ''Feeling sad'', log_action = Suppressed,
          log_timestamp = 1700000000000\<rparr>]
        newStorageService)) =
     [\<lparr>log_id = js ''123'', log_text = js ''Feeling happy'', log_action = Expressed,
       log_timestamp = 1700000000000\<rparr>,
      \<lparr>log_id = js ''124'', log_text = js ''Feeling sad'', log_action = Suppressed,
       log_timestamp = 1700000000000\<rparr>] \<and>
   loadCreatureState
     (snd (saveCreatureState \<lparr>brightness = 75, size_c = 60, animation = Grow\<rparr>
        newStorageService)) =
     Some \<lparr>brightness = 75, size_c = 60, animation = Grow\<rparr> \<and>
   loadSafetyScore (snd (saveSafetyScore 42 newStorageService)) = 42"
proof -
  have w: "setItemThrows (localStorage newStorageService) = None"
    and r: "getItemThrows (localStorage newStorageService) = None"
    by (simp_all add: newStorageService_def)
  show ?thesis
    using save_load_roundtrip [OF w r] by simp
qed

lemma readItem_unreadable:
  "getItemThrows (localStorage svc) \<noteq> None \<Longrightarrow> readItem k svc = None"
  by (auto simp add: readItem_def getItem_def)

lemma readItem_putRaw_other: "k' \<noteq> k \<Longrightarrow> readItem k' (putRaw k c svc) = readItem k' svc"
  by (simp add: readItem_def putRaw_def getItem_def split: option.splits)

lemma readItem_putRaw_Malformed: "readItem k (putRaw k (Malformed t) svc) = None"
  by (simp add: readItem_def putRaw_def getItem_def split: option.splits)

lemma readItem_putRaw_Wellformed:
  "readItem k (putRaw k (Wellformed v) svc) =
     (if getItemThrows (localStorage svc) = None then Some v else None)"
  by (simp add: readItem_def putRaw_def getItem_def split: option.splits)

lemma loads_unreadable:
  "getItemThrows (localStorage svc) \<noteq> None \<Longrightarrow>
     loadLogs svc = [] \<and> loadCreatureState svc = None \<and> loadSafetyScore svc = 0"
  by (simp add: loadLogs_def loadCreatureState_def loadSafetyScore_def readItem_unreadable)

lemma loadLogs_not_array:
  "\<forall>vs. v \<noteq> JArr vs \<Longrightarrow> loadLogs (putRaw LOGS_KEY (Wellformed v) svc) = []"
  by (cases v) (simp_all add: loadLogs_def readItem_putRaw_Wellformed)

lemma decodeCreatureState_missing:
  "map_of ps (js ''brightness'') = None \<or> map_of ps (js ''size'') = None \<or>
   map_of ps (js ''animation'') = None \<Longrightarrow> decodeCreatureState (JObj ps) = None"
  by (auto simp add: decodeCreatureState_def split: option.splits json.splits)

lemma decodeCreatureState_not_object:
  "\<forall>ps. v \<noteq> JObj ps \<Longrightarrow> decodeCreatureState v = None"
  by (cases v) (simp_all add: decodeCreatureState_def)

lemma loadCreatureState_undecodable:
  "decodeCreatureState v = None \<Longrightarrow>
     loadCreatureState (putRaw CREATURE_KEY (Wellformed v) svc) = None"
  by (simp add: loadCreatureState_def readItem_putRaw_Wellformed)

lemma loadSafetyScore_not_number:
  "\<forall>n. v \<noteq> JNum n \<Longrightarrow> loadSafetyScore (putRaw SAFETY_KEY (Wellformed v) svc) = 0"
  by (cases v) (simp_all add: loadSafetyScore_def readItem_putRaw_Wellformed)

lemma loads_frame:
  "loadCreatureState (putRaw LOGS_KEY c svc) = loadCreatureState svc"
  "loadSafetyScore (putRaw LOGS_KEY c svc) = loadSafetyScore svc"
  "loadLogs (putRaw CREATURE_KEY c svc) = loadLogs svc"
  "loadSafetyScore (putRaw CREATURE_KEY c svc) = loadSafetyScore svc"
  "loadLogs (putRaw SAFETY_KEY c svc) = loadLogs svc"
  "loadCreatureState (putRaw SAFETY_KEY c svc) = loadCreatureState svc"
  using storage_keys_distinct
  by (simp_all add: loadLogs_def loadCreatureState_def loadSafetyScore_def
      readItem_putRaw_other)

text \<open>
  C8. A load never fails and falls back to the safe default of its kind: when the store
  throws on read every load gives its default (empty sequence, absent, 0); unparseable
  content under a key gives that kind's default; so does content of the wrong shape
  (logs that are not a sequence, a creature state that is not an object or misses a
  required field, a safety score that is not a number). Whatever is written under one
  key, the loads of the other two kinds return what they returned before.
\<close>

theorem load_corruption_isolated:
  "(getItemThrows (localStorage svc) \<noteq> None \<longrightarrow>
      loadLogs svc = [] \<and> loadCreatureState svc = None \<and> loadSafetyScore svc = 0) \<and>
   loadLogs (putRaw LOGS_KEY (Malformed t) svc) = [] \<and>
   ((\<forall>vs. v \<noteq> JArr vs) \<longrightarrow> loadLogs (putRaw LOGS_KEY (Wellformed v) svc) = []) \<and>
   loadCreatureState (putRaw CREATURE_KEY (Malformed t) svc) = None \<and>
   ((\<forall>ps. v \<noteq> JObj ps) \<longrightarrow>
      loadCreatureState (putRaw CREATURE_KEY (Wellformed v) svc) = None) \<and>
   (map_of ps (js ''brightness'') = None \<or> map_of ps (js ''size'') = None \<or>
    map_of ps (js ''animation'') = None \<longrightarrow>
      loadCreatureState (putRaw CREATURE_KEY (Wellformed (JObj ps)) svc) = None) \<and>
   loadSafetyScore (putRaw SAFETY_KEY (Malformed t) svc) = 0 \<and>
   ((\<forall>n. v \<noteq> JNum n) \<longrightarrow> loadSafetyScore (putRaw SAFETY_KEY (Wellformed v) svc) = 0) \<and>
   loadCreatureState (putRaw LOGS_KEY c svc) = loadCreatureState svc \<and>
   loadSafetyScore (putRaw LOGS_KEY c svc) = loadSafetyScore svc \<and>
   loadLogs (putRaw CREATURE_KEY c svc) = loadLogs svc \<and>
   loadSafetyScore (putRaw CREATURE_KEY c svc) = loadSafetyScore svc \<and>
   loadLogs (putRaw SAFETY_KEY c svc) = loadLogs svc \<and>
   loadCreatureState (putRaw SAFETY_KEY c svc) = loadCreatureState svc"
proof -
  have unreadable: "getItemThrows (localStorage svc) \<noteq> None \<longrightarrow>
      loadLogs svc = [] \<and> loadCreatureState svc = None \<and> loadSafetyScore svc = 0"
    using loads_unreadable by blast
  have malformed: "loadLogs (putRaw LOGS_KEY (Malformed t) svc) = []"
    "loadCreatureState (putRaw CREATURE_KEY (Malformed t) svc) = None"
    "loadSafetyScore (putRaw SAFETY_KEY (Malformed t) svc) = 0"
    by (simp_all add: loadLogs_def loadCreatureState_def loadSafetyScore_def
        readItem_putRaw_Malformed)
  have shape_logs:
    "(\<forall>vs. v \<noteq> JArr vs) \<longrightarrow> loadLogs (putRaw LOGS_KEY (Wellformed v) svc) = []"
    using loadLogs_not_array by blast
  have shape_creature: "(\<forall>ps. v \<noteq> JObj ps) \<longrightarrow>
      loadCreatureState (putRaw CREATURE_KEY (Wellformed v) svc) = None"
    using decodeCreatureState_not_object loadCreatureState_undecodable by blast
  have missing: "map_of ps (js ''brightness'') = None \<or> map_of ps (js ''size'') = None \<or>
      map_of ps (js ''animation'') = None \<longrightarrow>
      loadCreatureState (putRaw CREATURE_KEY (Wellformed (JObj ps)) svc) = None"
    using decodeCreatureState_missing loadCreatureState_undecodable by blast
  have shape_score: "(\<forall>n. v \<noteq> JNum n) \<longrightarrow>
      loadSafetyScore (putRaw SAFETY_KEY (Wellformed v) svc) = 0"
    using loadSafetyScore_not_number by blast
  from unreadable malformed shape_logs shape_creature missing shape_score
    loads_frame [of c svc]
  show ?thesis by blast
qed

theorem load_corruption_isolated_witness:
  "loadLogs
     (putRaw LOGS_KEY (Wellformed (JObj [(js ''not'', JStr (js ''an array''))]))
        (snd (saveSafetyScore 42
           (snd (saveCreatureState \<lparr>brightness = 75, size_c = 60, animation = Grow\<rparr>
              newStorageService))))) = [] \<and>
   loadCreatureState
     (putRaw LOGS_KEY (Wellformed (JObj [(js ''not'', JStr (js ''an array''))]))
        (snd (saveSafetyScore 42
           (snd (saveCreatureState \<lparr>brightness = 75, size_c = 60, animation = Grow\<rparr>
              newStorageService))))) =
     Some \<lparr>brightness = 75, size_c = 60, animation = Grow\<rparr> \<and>
   loadSafetyScore
     (putRaw LOGS_KEY (Wellformed (JObj [(js ''not'', JStr (js ''an array''))]))
        (snd (saveSafetyScore 42
           (snd (saveCreatureState \<lparr>brightness = 75, size_c = 60, animation = Grow\<rparr>
              newStorageService))))) = 42 \<and>
   loadCreatureState
     (putRaw CREATURE_KEY (Wellformed (JObj [(js ''invalid'', JStr (js ''structure''))]))
        newStorageService) = None \<and>
   loadSafetyScore (putRaw SAFETY_KEY (Malformed (js ''not a number'')) newStorageService) = 0 \<and>
   loadLogs
     (newStorageService
        \<lparr>localStorage :=
           \<lparr>items = Map.empty,
            getItemThrows = Some (OtherError (js ''localStorage is not available'')),
            setItemThrows = None\<rparr>\<rparr>) = []"
proof -
  let ?svc = "snd (saveSafetyScore 42
     (snd (saveCreatureState \<lparr>brightness = 75, size_c = 60, animation = Grow\<rparr>
        newStorageService)))"
  let ?junk = "JObj [(js ''not'', JStr (js ''an array''))]"
  let ?bad = "JObj [(js ''invalid'', JStr (js ''structure''))]"
  let ?off = "newStorageService
        \<lparr>localStorage :=
           \<lparr>items = Map.empty,
            getItemThrows = Some (OtherError (js ''localStorage is not available'')),
            setItemThrows = None\<rparr>\<rparr>"
  have saved: "loadCreatureState ?svc = Some \<lparr>brightness = 75, size_c = 60, animation = Grow\<rparr>"
    "loadSafetyScore ?svc = 42"
    by (simp_all add: loadCreatureState_def loadSafetyScore_def readItem_def getItem_def
        saveSafetyScore_def saveCreatureState_def saveItem_def setItem_def
        newStorageService_def CREATURE_KEY_def SAFETY_KEY_def js_def
        decodeCreatureState_encodeCreatureState)
  have not_array: "\<forall>vs. ?junk \<noteq> JArr vs"
    by simp
  have no_field: "map_of [(js ''invalid'', JStr (js ''structure''))] (js ''brightness'') = None"
    by (simp add: js_def)
  have off: "getItemThrows (localStorage ?off) \<noteq> None"
    by simp
  from saved not_array
    load_corruption_isolated [of ?svc "[]" ?junk "[]" "Wellformed ?junk"]
  have logs_part: "loadLogs (putRaw LOGS_KEY (Wellformed ?junk) ?svc) = [] \<and>
      loadCreatureState (putRaw LOGS_KEY (Wellformed ?junk) ?svc) =
        Some \<lparr>brightness = 75, size_c = 60, animation = Grow\<rparr> \<and>
      loadSafetyScore (putRaw LOGS_KEY (Wellformed ?junk) ?svc) = 42"
    by simp
  from no_field
    load_corruption_isolated
      [of newStorageService "js ''not a number''" JNull
          "[(js ''invalid'', JStr (js ''structure''))]" "Wellformed JNull"]
  have other_part:
    "loadCreatureState (putRaw CREATURE_KEY (Wellformed ?bad) newStorageService) = None \<and>
     loadSafetyScore (putRaw SAFETY_KEY (Malformed (js ''not a number'')) newStorageService) = 0"
    by blast
  from off load_corruption_isolated [of ?off "[]" JNull "[]" "Wellformed JNull"]
  have off_part: "loadLogs ?off = []"
    by blast
  from logs_part other_part off_part show ?thesis
    by blast
qed

lemma saveItem_fails:
  "setItemThrows (localStorage svc) = Some e \<Longrightarrow>
     fst (saveItem k v svc) = \<lparr>success = False, error = Some (errorMessage e)\<rparr> \<and>
     getLastError (snd (saveItem k v svc)) = Some (errorMessage e)"
  by (simp add: saveItem_def setItem_def getLastError_def)

lemma quota_message: "sublist (js ''Storage full'') (errorMessage (QuotaExceededError m))"
  by (simp add: errorMessage_def)

text \<open>
  C9. When the underlying write throws, for whatever reason, each of the three saves
  returns a result with \<open>success = False\<close> and an error message instead of failing, and
  that message is afterwards the last error of the gateway; for a quota-exceeded
  condition the message contains "Storage full".
\<close>

theorem save_failure_reported:
  assumes "setItemThrows (localStorage svc) = Some e"
  shows "fst (saveLogs ls svc) = \<lparr>success = False, error = Some (errorMessage e)\<rparr> \<and>
         getLastError (snd (saveLogs ls svc)) = Some (errorMessage e) \<and>
         fst (saveCreatureState s svc) = \<lparr>success = False, error = Some (errorMessage e)\<rparr> \<and>
         getLastError (snd (saveCreatureState s svc)) = Some (errorMessage e) \<and>
         fst (saveSafetyScore n svc) = \<lparr>success = False, error = Some (errorMessage e)\<rparr> \<and>
         getLastError (snd (saveSafetyScore n svc)) = Some (errorMessage e) \<and>
         ((\<exists>m. e = QuotaExceededError m) \<longrightarrow> sublist (js ''Storage full'') (errorMessage e))"
  using saveItem_fails [OF assms] quota_message
  by (auto simp add: saveLogs_def saveCreatureState_def saveSafetyScore_def)

theorem save_failure_reported_witness:
  "fst (saveLogs
          [\<lparr>log_id = js ''123'', log_text = js ''Test'', log_action = Expressed,
            log_timestamp = 1700000000000\<rparr>]
          (newStorageService
             \<lparr>localStorage :=
                \<lparr>items = Map.empty, getItemThrows = None,
                 setItemThrows = Some (QuotaExceededError (js ''Quota exceeded''))\<rparr>\<rparr>)) =
     \<lparr>success = False, error = Some (js ''Storage full'')\<rparr> \<and>
   getLastError
     (snd (saveSafetyScore 42
        (newStorageService
           \<lparr>localStorage :=
              \<lparr>items = Map.empty, getItemThrows = None,
               setItemThrows = Some (QuotaExceededError (js ''Quota exceeded''))\<rparr>\<rparr>))) =
     Some (js ''Storage full'') \<and>
   sublist (js ''Storage full'') (errorMessage (QuotaExceededError (js ''Quota exceeded'')))"
proof -
  let ?full = "newStorageService
     \<lparr>localStorage :=
        \<lparr>items = Map.empty, getItemThrows = None,
         setItemThrows = Some (QuotaExceededError (js ''Quota exceeded''))\<rparr>\<rparr>"
  have throws: "setItemThrows (localStorage ?full) = Some (QuotaExceededError (js ''Quota exceeded''))"
    by simp
  have msg: "errorMessage (QuotaExceededError (js ''Quota exceeded'')) = js ''Storage full''"
    by (simp add: errorMessage_def)
  from save_failure_reported [OF throws] msg show ?thesis
    by simp
qed

end
